theory Spec2Isabelle
  imports Main "HOL-Library.AList"
begin

section \<open>Values shared by all components\<close>

text \<open>
  Byte strings and text are both lists of characters.  A Python \<open>str\<close> is read as the
  sequence of its characters; all concrete inputs below are ASCII.
\<close>

type_synonym bytes = string

text \<open>
  The exceptions the core raises or lets through.  \<open>InvalidEpubFileError\<close> carries the rule
  its message names; \<open>FileNotFoundError\<close> and \<open>KeyError\<close> carry the path or key.  \<open>IOError\<close>
  is what \<open>EpubSaver.save\<close> raises, carrying its cause (\<open>raise IOError(...) from e\<close>);
  \<open>OSError\<close> stands for a failed write of the operating system, \<open>ReError\<close> for \<open>re.error\<close>.
  \<open>BadZipFile\<close>, \<open>NotImplementedError\<close> and \<open>RuntimeError\<close> are what \<open>zipfile\<close> raises on a
  file that is no archive or on a member it cannot read.
\<close>

datatype rule =
    NotAZipFile
  | MimetypeMissing
  | MimetypeNotAscii
  | MimetypeContent
  | MimetypeNotFirst
  | MimetypeCompressed
  | ContainerMissing
  | ContainerMalformed
  | RootfileMissing
  | FullPathMissing
  | OpfMalformed
  | OpfElementsMissing

datatype error =
    FileNotFoundError string
  | KeyError string
  | BadZipFile
  | InvalidEpubFileError rule
  | ValueError
  | ReError
  | TypeError
  | NotImplementedError
  | RuntimeError
  | OSError
  | IOError error

subsection \<open>Python string operations\<close>

definition startswith :: "string \<Rightarrow> string \<Rightarrow> bool" where
  "startswith s p \<longleftrightarrow> take (length p) s = p"

definition endswith :: "string \<Rightarrow> string \<Rightarrow> bool" where
  "endswith s suf \<longleftrightarrow> length suf \<le> length s \<and> drop (length s - length suf) s = suf"

text \<open>\<open>needle in hay\<close> on strings.\<close>

fun str_contains :: "string \<Rightarrow> string \<Rightarrow> bool" where
  "str_contains needle [] = (needle = [])"
| "str_contains needle (c # cs) = (startswith (c # cs) needle \<or> str_contains needle cs)"

text \<open>\<open>sep.join(parts)\<close> and \<open>s.split(sep)\<close> for a one-character separator.\<close>

fun join :: "string \<Rightarrow> string list \<Rightarrow> string" where
  "join sep [] = []"
| "join sep [p] = p"
| "join sep (p # q # ps) = p @ sep @ join sep (q # ps)"

fun split_on :: "char \<Rightarrow> string \<Rightarrow> string list" where
  "split_on sep [] = [[]]"
| "split_on sep (c # cs) =
     (case split_on sep cs of
        [] \<Rightarrow> [[c]]
      | p # ps \<Rightarrow> if c = sep then [] # p # ps else (c # p) # ps)"

text \<open>
  Python sequence indexing and slicing with \<open>int\<close> positions: a negative position counts
  from the end, an index outside the sequence raises \<open>IndexError\<close> (here \<open>None\<close>), a slice
  bound outside the sequence is clamped.
\<close>

definition py_index :: "'a list \<Rightarrow> int \<Rightarrow> nat option" where
  "py_index xs i =
     (if 0 \<le> i \<and> i < int (length xs) then Some (nat i)
      else if i < 0 \<and> - int (length xs) \<le> i then Some (nat (int (length xs) + i))
      else None)"

definition slice_bound :: "nat \<Rightarrow> int \<Rightarrow> nat" where
  "slice_bound n i = (if i < 0 then nat (int n + i) else min (nat i) n)"

definition py_slice :: "'a list \<Rightarrow> int \<Rightarrow> int \<Rightarrow> 'a list" where
  "py_slice xs lo hi =
     (let a = slice_bound (length xs) lo; b = slice_bound (length xs) hi
      in take (b - a) (drop a xs))"

definition py_slice_to :: "'a list \<Rightarrow> int \<Rightarrow> 'a list" where
  "py_slice_to xs hi = take (slice_bound (length xs) hi) xs"

definition py_slice_from :: "'a list \<Rightarrow> int \<Rightarrow> 'a list" where
  "py_slice_from xs lo = drop (slice_bound (length xs) lo) xs"

section \<open>Archive accessor: the ZIP container\<close>

text \<open>
  A \<open>zipfile.ZipFile\<close> is the ordered list of its members, each a \<open>ZipInfo\<close> (name and
  compression method) with what the file holds for the member: data that decompress to
  the given bytes, a damaged local header, encrypted data, or data that do not pass the
  checksum.  \<open>getinfo\<close> and \<open>read\<close> go through the name table of the archive, in which a
  later member of the same name replaces an earlier one.
\<close>

record ZipInfo =
  filename :: string
  compress_type :: nat

datatype payload = Data bytes | BadHeader | Encrypted | BadData

type_synonym ZipFile = "(ZipInfo \<times> payload) list"

definition ZIP_STORED :: nat where "ZIP_STORED = 0"
definition ZIP_DEFLATED :: nat where "ZIP_DEFLATED = 8"
definition ZIP_BZIP2 :: nat where "ZIP_BZIP2 = 12"
definition ZIP_LZMA :: nat where "ZIP_LZMA = 14"

text \<open>\<open>_check_compression\<close>: the methods \<open>zipfile\<close> can read and write (with \<open>zlib\<close>,
  \<open>bz2\<close> and \<open>lzma\<close> installed); any other raises \<open>NotImplementedError\<close>.\<close>

definition supported :: "nat \<Rightarrow> bool" where
  "supported ct \<longleftrightarrow> ct \<in> set [ZIP_STORED, ZIP_DEFLATED, ZIP_BZIP2, ZIP_LZMA]"

text \<open>
  Reading one member, in the order of \<open>ZipFile.open\<close> and \<open>ZipExtFile\<close>: the local header
  is checked (\<open>BadZipFile\<close>), an encrypted member needs a password (\<open>RuntimeError\<close>), the
  decompressor of the method is looked up (\<open>NotImplementedError\<close>), the data are read and
  their checksum compared (\<open>BadZipFile\<close>).
\<close>

definition read_member :: "ZipInfo \<times> payload \<Rightarrow> error + bytes" where
  "read_member m =
     (case snd m of
        BadHeader \<Rightarrow> Inl BadZipFile
      | Encrypted \<Rightarrow> Inl RuntimeError
      | BadData \<Rightarrow>
          if supported (compress_type (fst m)) then Inl BadZipFile else Inl NotImplementedError
      | Data bs \<Rightarrow>
          if supported (compress_type (fst m)) then Inr bs else Inl NotImplementedError)"

definition infolist :: "ZipFile \<Rightarrow> ZipInfo list" where
  "infolist z = map fst z"

definition name_to_info :: "ZipFile \<Rightarrow> string \<Rightarrow> (ZipInfo \<times> payload) option" where
  "name_to_info z name = find (\<lambda>m. filename (fst m) = name) (rev z)"

definition getinfo :: "ZipFile \<Rightarrow> string \<Rightarrow> error + ZipInfo" where
  "getinfo z name =
     (case name_to_info z name of None \<Rightarrow> Inl (KeyError name) | Some m \<Rightarrow> Inr (fst m))"

definition zip_read :: "ZipFile \<Rightarrow> string \<Rightarrow> error + bytes" where
  "zip_read z name =
     (case name_to_info z name of None \<Rightarrow> Inl (KeyError name) | Some m \<Rightarrow> read_member m)"

text \<open>The file system: a path names a ZIP container, some other file, or nothing.\<close>

datatype fs_file = Zip ZipFile | Raw bytes

type_synonym filesystem = "string \<Rightarrow> fs_file option"

definition open_zip :: "filesystem \<Rightarrow> string \<Rightarrow> error + ZipFile" where
  "open_zip fs path =
     (case fs path of
        None \<Rightarrow> Inl (FileNotFoundError path)
      | Some (Raw _) \<Rightarrow> Inl BadZipFile
      | Some (Zip z) \<Rightarrow> Inr z)"

section \<open>Paths and URL decoding\<close>

text \<open>
  \<open>pathlib\<close> on a POSIX system.  A path is parsed into a root and its parts; empty parts
  and \<open>.\<close> parts are dropped, \<open>..\<close> parts are kept.  \<open>as_posix\<close> prints root and parts,
  and the empty path as \<open>.\<close>.
\<close>

definition path_root :: "string \<Rightarrow> string" where
  "path_root p =
     (if startswith p ''//'' \<and> \<not> startswith p ''///'' then ''//''
      else if startswith p ''/'' then ''/'' else [])"

definition path_parts :: "string \<Rightarrow> string list" where
  "path_parts p = filter (\<lambda>x. x \<noteq> [] \<and> x \<noteq> ''.'') (split_on CHR ''/'' p)"

definition as_posix :: "string \<Rightarrow> string list \<Rightarrow> string" where
  "as_posix root parts =
     (if root = [] \<and> parts = [] then ''.'' else root @ join ''/'' parts)"

text \<open>\<open>posixpath.join(a, b)\<close>, by which \<open>Path(a) / b\<close> combines its segments.\<close>

definition posix_join :: "string \<Rightarrow> string \<Rightarrow> string" where
  "posix_join a b =
     (if startswith b ''/'' then b
      else if a = [] \<or> endswith a ''/'' then a @ b
      else a @ ''/'' @ b)"

text \<open>\<open>(Path(a) / b).as_posix()\<close>\<close>

definition path_div :: "string \<Rightarrow> string \<Rightarrow> string" where
  "path_div a b = (let p = posix_join a b in as_posix (path_root p) (path_parts p))"

text \<open>\<open>str(Path(p).parent)\<close>\<close>

definition path_parent :: "string \<Rightarrow> string" where
  "path_parent p = as_posix (path_root p) (butlast (path_parts p))"

text \<open>
  \<open>urllib.parse.unquote\<close>: every \<open>%XY\<close> with two hexadecimal digits becomes the byte
  \<open>XY\<close>; any other \<open>%\<close> stays.  (The decoded bytes are kept as they are: the replacement
  of byte sequences that are not UTF-8 is not modelled.)
\<close>

definition hex_digit :: "char \<Rightarrow> nat option" where
  "hex_digit c =
     (let n = (of_char c :: nat) in
      if 48 \<le> n \<and> n \<le> 57 then Some (n - 48)
      else if 65 \<le> n \<and> n \<le> 70 then Some (n - 55)
      else if 97 \<le> n \<and> n \<le> 102 then Some (n - 87)
      else None)"

fun unquote :: "string \<Rightarrow> string" where
  "unquote (c # h1 # h2 # rest) =
     (case (c = CHR ''%'', hex_digit h1, hex_digit h2) of
        (True, Some a, Some b) \<Rightarrow> char_of (16 * a + b) # unquote rest
      | _ \<Rightarrow> c # unquote (h1 # h2 # rest))"
| "unquote cs = cs"

section \<open>Document model\<close>

text \<open>
  The dataclasses of \<open>epub_model.py\<close> and \<open>search_models.py\<close>.  A field filled from an
  XML attribute holds what \<open>Element.get\<close> returned, which is \<open>None\<close> when the attribute is
  absent.  Dictionaries are association lists in insertion order (\<open>AList.update\<close> replaces
  the value of a key in place and appends a new key, as a Python \<open>dict\<close> does).
\<close>

record EpubMetadata =
  title :: "string option"
  creator :: "string option"
  language :: "string option"
  "identifier" :: "string option"
  publisher :: "string option"
  date :: "string option"
  rights :: "string option"
  all_metadata :: "(string \<times> string list) list"

record ManifestItem =
  id' :: "string option"
  href :: "string option"
  media_type :: "string option"
  properties :: "string option"

record SpineItem =
  idref :: "string option"
  linear :: bool

record SearchResult =
  file_path :: string
  item_href :: string
  node_index :: int
  match_start :: int
  match_end :: int
  match_text :: string
  "context" :: string

text \<open>
  \<open>ContentManager\<close>: the cache \<open>_content_cache\<close> and the lazily opened handle \<open>_zipfile\<close>,
  which holds the archive as it was when it was opened.
\<close>

record ContentManager =
  content_cache :: "(string \<times> bytes) list"
  zipfile_handle :: "ZipFile option"

record EpubBook =
  filepath :: string
  opf_dir :: string
  metadata :: EpubMetadata
  manifest :: "(string option \<times> ManifestItem) list"
  spine :: "SpineItem list"
  toc :: "(string \<times> string) list list"
  is_modified :: bool
  content_manager :: ContentManager

definition new_EpubMetadata :: EpubMetadata where
  "new_EpubMetadata =
     \<lparr>title = None, creator = None, language = None, identifier = None, publisher = None,
      date = None, rights = None, all_metadata = []\<rparr>"

text \<open>\<open>EpubBook(filepath=..., opf_dir=..., metadata=..., manifest=..., spine=...)\<close>\<close>

definition new_EpubBook ::
  "string \<Rightarrow> string \<Rightarrow> EpubMetadata \<Rightarrow> (string option \<times> ManifestItem) list \<Rightarrow> SpineItem list
     \<Rightarrow> EpubBook" where
  "new_EpubBook fp dir md mf sp =
     \<lparr>filepath = fp, opf_dir = dir, metadata = md, manifest = mf, spine = sp, toc = [],
      is_modified = False,
      content_manager = \<lparr>content_cache = [], zipfile_handle = None\<rparr>\<rparr>"

section \<open>Content cache\<close>

text \<open>The property \<open>ContentManager.zipfile\<close>: opens the book's file on first use.\<close>

definition cm_zipfile :: "filesystem \<Rightarrow> EpubBook \<Rightarrow> (error + ZipFile) \<times> EpubBook" where
  "cm_zipfile fs book =
     (case zipfile_handle (content_manager book) of
        Some z \<Rightarrow> (Inr z, book)
      | None \<Rightarrow>
          (case open_zip fs (filepath book) of
             Inl e \<Rightarrow> (Inl e, book)
           | Inr z \<Rightarrow>
               (Inr z,
                book\<lparr>content_manager := (content_manager book)\<lparr>zipfile_handle := Some z\<rparr>\<rparr>)))"

text \<open>The archive path \<open>get_content\<close> reads for an href.\<close>

definition full_path :: "EpubBook \<Rightarrow> string \<Rightarrow> string" where
  "full_path book ihref = path_div (opf_dir book) (unquote ihref)"

definition cache_store :: "EpubBook \<Rightarrow> string \<Rightarrow> bytes \<Rightarrow> EpubBook" where
  "cache_store book ihref content =
     book\<lparr>content_manager := (content_manager book)
       \<lparr>content_cache := AList.update ihref content (content_cache (content_manager book))\<rparr>\<rparr>"

definition get_content :: "filesystem \<Rightarrow> EpubBook \<Rightarrow> string \<Rightarrow> (error + bytes) \<times> EpubBook" where
  "get_content fs book ihref =
     (case map_of (content_cache (content_manager book)) ihref of
        Some content \<Rightarrow> (Inr content, book)
      | None \<Rightarrow>
          (case cm_zipfile fs book of
             (Inl e, book1) \<Rightarrow> (Inl e, book1)
           | (Inr z, book1) \<Rightarrow>
               (case zip_read z (full_path book ihref) of
                  Inl (KeyError k) \<Rightarrow> (Inl (FileNotFoundError (full_path book ihref)), book1)
                | Inl e \<Rightarrow> (Inl e, book1)
                | Inr content \<Rightarrow> (Inr content, cache_store book1 ihref content))))"

definition update_content :: "EpubBook \<Rightarrow> string \<Rightarrow> bytes \<Rightarrow> EpubBook" where
  "update_content book ihref new_content =
     (cache_store book ihref new_content)\<lparr>is_modified := True\<rparr>"

section \<open>Archive saver\<close>

text \<open>
  Writing can fail: a device either never fails, or lets \<open>n\<close> operations through and
  fails from then on.
  Every operation that writes to the file system (creating the temporary file, writing a
  member, closing the new archive, renaming) asks the device first.
\<close>

datatype device = Reliable | FailsAfter nat

fun io_step :: "device \<Rightarrow> device option" where
  "io_step Reliable = Some Reliable"
| "io_step (FailsAfter 0) = None"
| "io_step (FailsAfter (Suc n)) = Some (FailsAfter n)"

text \<open>
  \<open>ZipFile.writestr(zinfo, data)\<close> checks the compression method of the \<open>ZipInfo\<close> and
  appends a member under it; \<open>writestr(name, data)\<close> makes a fresh \<open>ZipInfo\<close> with the
  archive's own compression, which \<open>save\<close> sets to \<open>ZIP_DEFLATED\<close> (the name ends at its
  first null byte).  Each member written is an entry of its own here.  (In \<open>zipfile\<close> a
  \<open>ZipInfo\<close> object that is written twice, by two keys of the cache that find the same
  member, stands twice in the directory with the offsets of its second write; this
  sharing is not modelled.)
\<close>

definition writestr ::
  "device \<Rightarrow> ZipFile \<Rightarrow> ZipInfo \<Rightarrow> bytes \<Rightarrow> error option \<times> ZipFile \<times> device" where
  "writestr dev new_zip zinfo data =
     (if \<not> supported (compress_type zinfo) then (Some NotImplementedError, new_zip, dev)
      else
        (case io_step dev of
           None \<Rightarrow> (Some OSError, new_zip, dev)
         | Some dev' \<Rightarrow> (None, new_zip @ [(zinfo, Data data)], dev')))"

definition fresh_ZipInfo :: "string \<Rightarrow> ZipInfo" where
  "fresh_ZipInfo name =
     \<lparr>filename = takeWhile (\<lambda>c. c \<noteq> CHR 0x00) name, compress_type = ZIP_DEFLATED\<rparr>"

text \<open>
  \<open>writestr(zinfo, data, compress_type=ZIP_STORED)\<close> sets the compression method on the
  \<open>ZipInfo\<close> object it is given, which is the object the original archive holds for its
  \<open>mimetype\<close> member: the original's member list sees the change.
\<close>

fun set_compress_first :: "string \<Rightarrow> nat \<Rightarrow> ZipFile \<Rightarrow> ZipFile" where
  "set_compress_first name ct [] = []"
| "set_compress_first name ct (m # ms) =
     (if filename (fst m) = name then ((fst m)\<lparr>compress_type := ct\<rparr>, snd m) # ms
      else m # set_compress_first name ct ms)"

definition write_mimetype ::
  "device \<Rightarrow> ZipFile \<Rightarrow> ZipFile \<Rightarrow> error option \<times> ZipFile \<times> device \<times> ZipFile" where
  "write_mimetype dev new_zip original_zip =
     (case name_to_info original_zip ''mimetype'' of
        None \<Rightarrow> (Some (KeyError ''mimetype''), new_zip, dev, original_zip)
      | Some m \<Rightarrow>
          (case read_member m of
             Inl e \<Rightarrow> (Some e, new_zip, dev, original_zip)
           | Inr mimetype_content \<Rightarrow>
               (case writestr dev new_zip ((fst m)\<lparr>compress_type := ZIP_STORED\<rparr>)
                       mimetype_content of
                  (err, new_zip', dev') \<Rightarrow>
                    (err, new_zip', dev',
                     rev (set_compress_first ''mimetype'' ZIP_STORED (rev original_zip))))))"

fun write_unmodified_loop ::
  "device \<Rightarrow> ZipFile \<Rightarrow> ZipFile \<Rightarrow> string list \<Rightarrow> ZipInfo list
     \<Rightarrow> error option \<times> ZipFile \<times> device" where
  "write_unmodified_loop dev new_zip original_zip modified_files [] = (None, new_zip, dev)"
| "write_unmodified_loop dev new_zip original_zip modified_files (item # items) =
     (if filename item = ''mimetype''
      then write_unmodified_loop dev new_zip original_zip modified_files items
      else if list_ex (\<lambda>href. endswith (filename item) href) modified_files
      then write_unmodified_loop dev new_zip original_zip modified_files items
      else
        (case zip_read original_zip (filename item) of
           Inl e \<Rightarrow> (Some e, new_zip, dev)
         | Inr data \<Rightarrow>
             (case writestr dev new_zip item data of
                (Some e, new_zip', dev') \<Rightarrow> (Some e, new_zip', dev')
              | (None, new_zip', dev') \<Rightarrow>
                  write_unmodified_loop dev' new_zip' original_zip modified_files items)))"

definition write_unmodified_files ::
  "device \<Rightarrow> ZipFile \<Rightarrow> ZipFile \<Rightarrow> string list \<Rightarrow> error option \<times> ZipFile \<times> device" where
  "write_unmodified_files dev new_zip original_zip modified_files =
     write_unmodified_loop dev new_zip original_zip modified_files (infolist original_zip)"

fun write_modified_loop ::
  "device \<Rightarrow> ZipFile \<Rightarrow> ZipFile \<Rightarrow> (string \<times> bytes) list
     \<Rightarrow> error option \<times> ZipFile \<times> device" where
  "write_modified_loop dev new_zip original_zip [] = (None, new_zip, dev)"
| "write_modified_loop dev new_zip original_zip ((href0, content) # rest) =
     (let found_info = find (\<lambda>info. endswith (filename info) href0) (infolist original_zip);
          zinfo = (case found_info of Some info \<Rightarrow> info | None \<Rightarrow> fresh_ZipInfo href0)
      in case writestr dev new_zip zinfo content of
           (Some e, new_zip', dev') \<Rightarrow> (Some e, new_zip', dev')
         | (None, new_zip', dev') \<Rightarrow> write_modified_loop dev' new_zip' original_zip rest)"

definition write_modified_files ::
  "device \<Rightarrow> ZipFile \<Rightarrow> ZipFile \<Rightarrow> EpubBook \<Rightarrow> error option \<times> ZipFile \<times> device" where
  "write_modified_files dev new_zip original_zip book =
     write_modified_loop dev new_zip original_zip (content_cache (content_manager book))"

text \<open>The keys of the cache, which \<open>save\<close> passes on as \<open>modified_files\<close>.\<close>

definition modified_files_of :: "EpubBook \<Rightarrow> string list" where
  "modified_files_of book = map fst (content_cache (content_manager book))"

text \<open>The three writes inside the two \<open>with\<close> blocks of \<open>save\<close>.\<close>

definition write_members ::
  "device \<Rightarrow> ZipFile \<Rightarrow> EpubBook \<Rightarrow> error option \<times> ZipFile \<times> device" where
  "write_members dev original_zip book =
     (case write_mimetype dev [] original_zip of
        (Some e, new_zip, dev1, original1) \<Rightarrow> (Some e, new_zip, dev1)
      | (None, new_zip, dev1, original1) \<Rightarrow>
          (case write_unmodified_files dev1 new_zip original1 (modified_files_of book) of
             (Some e, new_zip', dev2) \<Rightarrow> (Some e, new_zip', dev2)
           | (None, new_zip', dev2) \<Rightarrow> write_modified_files dev2 new_zip' original1 book))"

text \<open>
  Steps 1 to 4: open the original, create the temporary archive, write the members, close
  it.  Closing writes the directory of the new archive, also when a write before it failed.
\<close>

definition write_temp_archive ::
  "device \<Rightarrow> filesystem \<Rightarrow> EpubBook \<Rightarrow> string \<Rightarrow> error option \<times> filesystem \<times> device" where
  "write_temp_archive dev fs book temp_path =
     (case open_zip fs (filepath book) of
        Inl e \<Rightarrow> (Some e, fs, dev)
      | Inr original_zip \<Rightarrow>
          (case io_step dev of
             None \<Rightarrow> (Some OSError, fs, dev)
           | Some dev0 \<Rightarrow>
               (case write_members dev0 original_zip book of
                  (err, new_zip, dev1) \<Rightarrow>
                    (case io_step dev1 of
                       None \<Rightarrow> (Some OSError, fs(temp_path \<mapsto> Zip new_zip), dev1)
                     | Some dev2 \<Rightarrow> (err, fs(temp_path \<mapsto> Zip new_zip), dev2)))))"

text \<open>\<open>os.replace(src, dst)\<close>\<close>

definition os_replace ::
  "device \<Rightarrow> filesystem \<Rightarrow> string \<Rightarrow> string \<Rightarrow> error option \<times> filesystem \<times> device" where
  "os_replace dev fs src dst =
     (case fs src of
        None \<Rightarrow> (Some (FileNotFoundError src), fs, dev)
      | Some f \<Rightarrow>
          (case io_step dev of
             None \<Rightarrow> (Some OSError, fs, dev)
           | Some dev' \<Rightarrow> (None, (fs(src := None))(dst \<mapsto> f), dev')))"

text \<open>Step 5: the optional backup and the final rename.\<close>

definition commit ::
  "device \<Rightarrow> filesystem \<Rightarrow> string \<Rightarrow> string \<Rightarrow> string \<Rightarrow> bool
     \<Rightarrow> error option \<times> filesystem \<times> device" where
  "commit dev fs original_path temp_path backup_path backup =
     (case (if backup \<and> fs original_path \<noteq> None
            then os_replace dev fs original_path backup_path else (None, fs, dev)) of
        (Some e, fs1, dev1) \<Rightarrow> (Some e, fs1, dev1)
      | (None, fs1, dev1) \<Rightarrow> os_replace dev1 fs1 temp_path original_path)"

text \<open>\<open>str(Path(p))\<close>, and \<open>Path(p).with_suffix(Path(p).suffix + s)\<close> printed.\<close>

definition Path_str :: "string \<Rightarrow> string" where
  "Path_str p = as_posix (path_root p) (path_parts p)"

definition add_suffix :: "string \<Rightarrow> string \<Rightarrow> string" where
  "add_suffix p s = Path_str p @ s"

text \<open>
  \<open>EpubSaver.save\<close>.  The result is the exception raised (if any), the file system and
  the book afterwards.  \<open>with_suffix\<close> raises \<open>ValueError\<close> on a path without a name, before
  the \<open>try\<close>.
\<close>

definition save ::
  "device \<Rightarrow> filesystem \<Rightarrow> EpubBook \<Rightarrow> bool \<Rightarrow> error option \<times> filesystem \<times> EpubBook" where
  "save dev fs book backup =
     (if \<not> is_modified book then (None, fs, book)
      else if path_parts (filepath book) = [] then (Some ValueError, fs, book)
      else
        (let original_path = Path_str (filepath book);
             temp_path = add_suffix (filepath book) ''.tmp'';
             backup_path = add_suffix (filepath book) ''.bak'';
             attempt =
               (case write_temp_archive dev fs book temp_path of
                  (Some e, fs1, dev1) \<Rightarrow> (Some e, fs1)
                | (None, fs1, dev1) \<Rightarrow>
                    (case commit dev1 fs1 original_path temp_path backup_path backup of
                       (err, fs2, dev2) \<Rightarrow> (err, fs2)))
         in case attempt of
              (Some e, fs') \<Rightarrow>
                (Some (IOError e), (if fs' temp_path \<noteq> None then fs'(temp_path := None) else fs'),
                 book)
            | (None, fs') \<Rightarrow>
                (None, fs',
                 book\<lparr>is_modified := False,
                      content_manager := (content_manager book)\<lparr>content_cache := []\<rparr>\<rparr>)))"

section \<open>The libraries the engines call\<close>

text \<open>
  A parsed document (\<open>BeautifulSoup\<close>): a tree of tags with text leaves.  Every leaf that
  \<open>find_all(string=True)\<close> returns is a \<open>NavigableString\<close> here.
\<close>

datatype node = NavigableString string | Tag string "node list"

type_synonym soup = "node list"

text \<open>A match object (\<open>start()\<close>, \<open>end()\<close>, \<open>group(0)\<close>) and a compiled pattern.\<close>

record re_match =
  m_start :: nat
  m_end :: nat
  group0 :: string

record pattern =
  finditer :: "string \<Rightarrow> re_match list"
  subn :: "string \<Rightarrow> string \<Rightarrow> error + (string \<times> nat)"

text \<open>
  A node of an \<open>lxml.etree\<close> tree: an element (namespace and local name of its tag,
  attributes, text, children), a comment, or a processing instruction (target and text).
  Iterating over an element yields its children of all three kinds; a comment or
  processing instruction has none.
\<close>

datatype element =
    is_Element: Element (el_ns: string) (localname: string) (attrib: "(string \<times> string) list")
      (el_text: "string option") (el_children: "element list")
  | Comment string
  | ProcessingInstruction string string

definition children_of :: "element \<Rightarrow> element list" where
  "children_of el = (case el of Element ns name at tx cs \<Rightarrow> cs | _ \<Rightarrow> [])"

text \<open>\<open>etree.QName(item.tag).localname\<close>: the tag of a comment or processing instruction
  is no name, and \<open>QName\<close> raises \<open>ValueError\<close> on it.\<close>

definition QName_localname :: "element \<Rightarrow> error + string" where
  "QName_localname item = (case item of Element ns name at tx cs \<Rightarrow> Inr name | _ \<Rightarrow> Inl ValueError)"

text \<open>
  The markup parser, its serializer, the regular expression compiler (\<open>None\<close> is
  \<open>re.error\<close>; the flag is \<open>re.IGNORECASE\<close>) and the XML parser (\<open>None\<close> is
  \<open>XMLSyntaxError\<close>) are parameters of the model.
\<close>

record libs =
  BeautifulSoup :: "bytes \<Rightarrow> soup"
  prettify :: "soup \<Rightarrow> bytes"
  re_compile :: "string \<Rightarrow> bool \<Rightarrow> pattern option"
  fromstring :: "bytes \<Rightarrow> element option"

text \<open>\<open>soup.find_all(string=True)\<close>: the text leaves in document order, each with the name
  of its parent.\<close>

fun strings_of :: "string \<Rightarrow> node \<Rightarrow> (string \<times> string) list" where
  "strings_of parent (NavigableString s) = [(parent, s)]"
| "strings_of parent (Tag name cs) = concat (map (strings_of name) cs)"

definition strings_in :: "string \<Rightarrow> node list \<Rightarrow> (string \<times> string) list" where
  "strings_in parent ns = concat (map (strings_of parent) ns)"

definition find_all_strings :: "soup \<Rightarrow> (string \<times> string) list" where
  "find_all_strings sp = strings_in ''[document]'' sp"

text \<open>\<open>text_nodes[i].replace_with(t)\<close>: the \<open>i\<close>-th text leaf becomes \<open>t\<close>.\<close>

fun replace_with :: "nat \<Rightarrow> string \<Rightarrow> node list \<Rightarrow> node list" where
  "replace_with i t [] = []"
| "replace_with i t (NavigableString s # rest) =
     (if i = 0 then NavigableString t # rest
      else NavigableString s # replace_with (i - 1) t rest)"
| "replace_with i t (Tag name cs # rest) =
     (let k = length (strings_in name cs)
      in if i < k then Tag name (replace_with i t cs) # rest
         else Tag name cs # replace_with (i - k) t rest)"

text \<open>\<open>re.escape\<close>\<close>

definition re_special :: string where
  "re_special = ''()[]{}?*+-|^$.&~# '' @ [CHR 0x5C, CHR 0x09, CHR 0x0A, CHR 0x0D, CHR 0x0B, CHR 0x0C]"

definition re_escape :: "string \<Rightarrow> string" where
  "re_escape s = concat (map (\<lambda>c. if c \<in> set re_special then [CHR 0x5C, c] else [c]) s)"

definition word_boundary :: string where
  "word_boundary = [CHR 0x5C, CHR ''b'']"

section \<open>Search engine\<close>

definition compile_search_pattern ::
  "libs \<Rightarrow> string \<Rightarrow> bool \<Rightarrow> bool \<Rightarrow> bool \<Rightarrow> error + pattern" where
  "compile_search_pattern L query case_sensitive whole_word regex =
     (let ignorecase = \<not> case_sensitive;
          q1 = (if \<not> regex then re_escape query else query);
          q2 = (if whole_word then word_boundary @ q1 @ word_boundary else q1)
      in case re_compile L q2 ignorecase of
           None \<Rightarrow> Inl ValueError
         | Some p \<Rightarrow> Inr p)"

text \<open>\<open>except (FileNotFoundError, KeyError)\<close>\<close>

fun caught :: "error \<Rightarrow> bool" where
  "caught (FileNotFoundError _) = True"
| "caught (KeyError _) = True"
| "caught _ = False"

definition results_in_node :: "string \<Rightarrow> pattern \<Rightarrow> nat \<times> string \<times> string \<Rightarrow> SearchResult list" where
  "results_in_node h p ix =
     map (\<lambda>m. \<lparr>file_path = h, item_href = h, node_index = int (fst ix),
                match_start = int (m_start m), match_end = int (m_end m),
                match_text = group0 m, context = snd (snd ix)\<rparr>)
       (finditer p (snd (snd ix)))"

text \<open>
  The generators are modelled by what they yield in all, the exception that ends them (if
  any) and the book afterwards (reading fills the cache).
\<close>

definition search_in_file ::
  "libs \<Rightarrow> filesystem \<Rightarrow> EpubBook \<Rightarrow> ManifestItem \<Rightarrow> pattern
     \<Rightarrow> SearchResult list \<times> error option \<times> EpubBook" where
  "search_in_file L fs book item search_pattern =
     (case href item of
        None \<Rightarrow> ([], Some TypeError, book)
      | Some h \<Rightarrow>
          (case get_content fs book h of
             (Inl e, book1) \<Rightarrow> ([], (if caught e then None else Some e), book1)
           | (Inr content, book1) \<Rightarrow>
               (let text_nodes = find_all_strings (BeautifulSoup L content)
                in (concat (map (results_in_node h search_pattern) (enumerate 0 text_nodes)),
                    None, book1))))"

fun search_items ::
  "libs \<Rightarrow> filesystem \<Rightarrow> EpubBook \<Rightarrow> pattern \<Rightarrow> ManifestItem list
     \<Rightarrow> SearchResult list \<times> error option \<times> EpubBook" where
  "search_items L fs book p [] = ([], None, book)"
| "search_items L fs book p (item # items) =
     (case media_type item of
        None \<Rightarrow> ([], Some TypeError, book)
      | Some mt \<Rightarrow>
          if str_contains ''html'' mt then
            (case search_in_file L fs book item p of
               (rs, Some e, book1) \<Rightarrow> (rs, Some e, book1)
             | (rs, None, book1) \<Rightarrow>
                 (case search_items L fs book1 p items of
                    (rs', err, book2) \<Rightarrow> (rs @ rs', err, book2)))
          else search_items L fs book p items)"

definition search ::
  "libs \<Rightarrow> filesystem \<Rightarrow> EpubBook \<Rightarrow> string \<Rightarrow> bool \<Rightarrow> bool \<Rightarrow> bool
     \<Rightarrow> SearchResult list \<times> error option \<times> EpubBook" where
  "search L fs book query case_sensitive whole_word regex =
     (case compile_search_pattern L query case_sensitive whole_word regex of
        Inl e \<Rightarrow> ([], Some e, book)
      | Inr p \<Rightarrow> search_items L fs book p (map snd (manifest book)))"

section \<open>Replace engine\<close>

text \<open>
  The loop of \<open>_replace_in_file\<close> over the text nodes, with the document and the count so
  far.  An exception of \<open>subn\<close> ends it.
\<close>

fun replace_nodes ::
  "pattern \<Rightarrow> string \<Rightarrow> soup \<Rightarrow> nat \<Rightarrow> (nat \<times> string \<times> string) list \<Rightarrow> error + (soup \<times> nat)" where
  "replace_nodes p replace sp file_replacements [] = Inr (sp, file_replacements)"
| "replace_nodes p replace sp file_replacements ((i, parent, text) # nodes) =
     (if parent \<in> set [''style'', ''script'']
      then replace_nodes p replace sp file_replacements nodes
      else
        (case subn p replace text of
           Inl e \<Rightarrow> Inl e
         | Inr (new_content, num_subs) \<Rightarrow>
             if num_subs > 0
             then replace_nodes p replace (replace_with i new_content sp)
                    (file_replacements + num_subs) nodes
             else replace_nodes p replace sp file_replacements nodes))"

definition replace_in_file ::
  "libs \<Rightarrow> filesystem \<Rightarrow> EpubBook \<Rightarrow> ManifestItem \<Rightarrow> pattern \<Rightarrow> string
     \<Rightarrow> (error + nat) \<times> EpubBook" where
  "replace_in_file L fs book item search_pattern replace =
     (case href item of
        None \<Rightarrow> (Inl TypeError, book)
      | Some h \<Rightarrow>
          (case get_content fs book h of
             (Inl e, book1) \<Rightarrow> ((if caught e then Inr 0 else Inl e), book1)
           | (Inr content, book1) \<Rightarrow>
               (let sp = BeautifulSoup L content;
                    text_nodes = find_all_strings sp
                in case replace_nodes search_pattern replace sp 0 (enumerate 0 text_nodes) of
                     Inl e \<Rightarrow> ((if caught e then Inr 0 else Inl e), book1)
                   | Inr (sp', file_replacements) \<Rightarrow>
                       if file_replacements > 0
                       then (Inr file_replacements, update_content book1 h (prettify L sp'))
                       else (Inr file_replacements, book1))))"

fun replace_items ::
  "libs \<Rightarrow> filesystem \<Rightarrow> EpubBook \<Rightarrow> pattern \<Rightarrow> string \<Rightarrow> nat \<Rightarrow> ManifestItem list
     \<Rightarrow> (error + nat) \<times> EpubBook" where
  "replace_items L fs book p replace total_replacements [] = (Inr total_replacements, book)"
| "replace_items L fs book p replace total_replacements (item # items) =
     (case media_type item of
        None \<Rightarrow> (Inl TypeError, book)
      | Some mt \<Rightarrow>
          if str_contains ''html'' mt then
            (case replace_in_file L fs book item p replace of
               (Inl e, book1) \<Rightarrow> (Inl e, book1)
             | (Inr n, book1) \<Rightarrow>
                 replace_items L fs book1 p replace (total_replacements + n) items)
          else replace_items L fs book p replace total_replacements items)"

definition replace_all ::
  "libs \<Rightarrow> filesystem \<Rightarrow> EpubBook \<Rightarrow> string \<Rightarrow> string \<Rightarrow> bool \<Rightarrow> bool \<Rightarrow> bool
     \<Rightarrow> (error + nat) \<times> EpubBook" where
  "replace_all L fs book find0 replace case_sensitive whole_word regex =
     (let ignorecase = \<not> case_sensitive;
          f1 = (if \<not> regex then re_escape find0 else find0);
          f2 = (if whole_word then word_boundary @ f1 @ word_boundary else f1)
      in case re_compile L f2 ignorecase of
           None \<Rightarrow> (Inl ValueError, book)
         | Some search_pattern \<Rightarrow>
             replace_items L fs book search_pattern replace 0 (map snd (manifest book)))"

text \<open>The loop of \<open>batch_replace_all\<close>, with the running total.\<close>

fun batch_loop ::
  "libs \<Rightarrow> filesystem \<Rightarrow> EpubBook \<Rightarrow> bool \<Rightarrow> bool \<Rightarrow> bool \<Rightarrow> nat \<Rightarrow> (string \<times> string) list
     \<Rightarrow> (error + nat) \<times> EpubBook" where
  "batch_loop L fs book cs ww rx total_replacements [] = (Inr total_replacements, book)"
| "batch_loop L fs book cs ww rx total_replacements ((find0, replace) # operations) =
     (case replace_all L fs book find0 replace cs ww rx of
        (Inl e, book1) \<Rightarrow> (Inl e, book1)
      | (Inr n, book1) \<Rightarrow> batch_loop L fs book1 cs ww rx (total_replacements + n) operations)"

definition batch_replace_all ::
  "libs \<Rightarrow> filesystem \<Rightarrow> EpubBook \<Rightarrow> (string \<times> string) list \<Rightarrow> bool \<Rightarrow> bool \<Rightarrow> bool
     \<Rightarrow> (error + nat) \<times> EpubBook" where
  "batch_replace_all L fs book operations case_sensitive whole_word regex =
     batch_loop L fs book case_sensitive whole_word regex 0 operations"

text \<open>
  \<open>replace_single\<close>.  \<open>text_nodes[node_index]\<close> raises \<open>IndexError\<close> outside the
  sequence, which the \<open>except\<close> clause turns into the result \<open>0\<close>, as it does with
  \<open>FileNotFoundError\<close> and \<open>KeyError\<close>.
\<close>

definition replace_single ::
  "libs \<Rightarrow> filesystem \<Rightarrow> EpubBook \<Rightarrow> SearchResult \<Rightarrow> string \<Rightarrow> (error + nat) \<times> EpubBook" where
  "replace_single L fs book search_result replace_text =
     (case get_content fs book (item_href search_result) of
        (Inl e, book1) \<Rightarrow> ((if caught e then Inr 0 else Inl e), book1)
      | (Inr content, book1) \<Rightarrow>
          (let sp = BeautifulSoup L content;
               text_nodes = find_all_strings sp
           in if node_index search_result \<ge> int (length text_nodes) then (Inr 0, book1)
              else
                (case py_index text_nodes (node_index search_result) of
                   None \<Rightarrow> (Inr 0, book1)
                 | Some i \<Rightarrow>
                     (let original_text = snd (text_nodes ! i)
                      in if py_slice original_text (match_start search_result)
                              (match_end search_result) \<noteq> match_text search_result
                         then (Inr 0, book1)
                         else
                           (let new_text =
                                  py_slice_to original_text (match_start search_result)
                                  @ replace_text
                                  @ py_slice_from original_text (match_end search_result);
                                new_html = prettify L (replace_with i new_text sp)
                            in (Inr 1,
                                (update_content book1 (item_href search_result) new_html)
                                  \<lparr>is_modified := True\<rparr>))))))"

section \<open>Container loader\<close>

text \<open>\<open>bytes.decode('ascii')\<close> succeeds on bytes below 128; \<open>str.strip()\<close> removes the
  whitespace of Python at both ends.  Around the read of the \<open>mimetype\<close> member,
  \<open>_validate_epub\<close> catches \<open>KeyError\<close> and \<open>UnicodeDecodeError\<close>; any other exception of
  the read passes through.\<close>

definition is_ascii :: "bytes \<Rightarrow> bool" where
  "is_ascii bs = list_all (\<lambda>c. (of_char c :: nat) < 128) bs"

definition py_isspace :: "char \<Rightarrow> bool" where
  "py_isspace c = ((of_char c :: nat) \<in> set [9, 10, 11, 12, 13, 28, 29, 30, 31, 32])"

definition strip :: "string \<Rightarrow> string" where
  "strip s = rev (dropWhile py_isspace (rev (dropWhile py_isspace s)))"

definition validate_epub :: "ZipFile \<Rightarrow> error option" where
  "validate_epub epub =
     (case zip_read epub ''mimetype'' of
        Inl (KeyError k) \<Rightarrow> Some (InvalidEpubFileError MimetypeMissing)
      | Inl e \<Rightarrow> Some e
      | Inr raw \<Rightarrow>
          if \<not> is_ascii raw then Some (InvalidEpubFileError MimetypeNotAscii)
          else if strip raw \<noteq> ''application/epub+zip''
          then Some (InvalidEpubFileError MimetypeContent)
          else
            (let file_list = infolist epub
             in if file_list = [] \<or> filename (hd file_list) \<noteq> ''mimetype''
                then Some (InvalidEpubFileError MimetypeNotFirst)
                else if compress_type (hd file_list) \<noteq> ZIP_STORED
                then Some (InvalidEpubFileError MimetypeCompressed)
                else
                  (case getinfo epub ''META-INF/container.xml'' of
                     Inl e \<Rightarrow> Some (InvalidEpubFileError ContainerMissing)
                   | Inr info \<Rightarrow> None)))"

definition container_ns :: string where
  "container_ns = ''urn:oasis:names:tc:opendocument:xmlns:container''"

definition opf_ns :: string where
  "opf_ns = ''http://www.idpf.org/2007/opf''"

text \<open>\<open>element.findall('ns:name')\<close> and \<open>element.find('ns:name')\<close>: the child elements
  of that name.\<close>

definition findall :: "element \<Rightarrow> string \<Rightarrow> string \<Rightarrow> element list" where
  "findall el ns name =
     filter (\<lambda>c. is_Element c \<and> el_ns c = ns \<and> localname c = name) (children_of el)"

definition find_child :: "element \<Rightarrow> string \<Rightarrow> string \<Rightarrow> element option" where
  "find_child el ns name = (case findall el ns name of [] \<Rightarrow> None | c # cs \<Rightarrow> Some c)"

definition get_opf_path :: "libs \<Rightarrow> ZipFile \<Rightarrow> error + string" where
  "get_opf_path L epub =
     (case zip_read epub ''META-INF/container.xml'' of
        Inl e \<Rightarrow> Inl e
      | Inr container_xml \<Rightarrow>
          (case fromstring L container_xml of
             None \<Rightarrow> Inl (InvalidEpubFileError ContainerMalformed)
           | Some tree \<Rightarrow>
               (case concat (map (\<lambda>r. findall r container_ns ''rootfile'')
                       (findall tree container_ns ''rootfiles'')) of
                  [] \<Rightarrow> Inl (InvalidEpubFileError RootfileMissing)
                | rootfile_element # others \<Rightarrow>
                    (case map_of (attrib rootfile_element) ''full-path'' of
                       None \<Rightarrow> Inl (InvalidEpubFileError FullPathMissing)
                     | Some opf_path \<Rightarrow>
                         if opf_path = [] then Inl (InvalidEpubFileError FullPathMissing)
                         else Inr opf_path))))"

text \<open>
  \<open>_parse_metadata\<close>: the body of the loop once the tag name is known, one step of the
  loop over the children of the metadata element, and the loop.  \<open>setattr\<close> stores the
  text of a recognized tag, whatever it is; a text that is not empty is appended to the
  list of its tag in \<open>all_metadata\<close>.  The \<open>ValueError\<close> of \<open>QName\<close> ends the loop.
\<close>

definition set_field :: "EpubMetadata \<Rightarrow> string \<Rightarrow> string option \<Rightarrow> EpubMetadata" where
  "set_field md tag_name v =
     (if tag_name = ''title'' then md\<lparr>title := v\<rparr>
      else if tag_name = ''creator'' then md\<lparr>creator := v\<rparr>
      else if tag_name = ''language'' then md\<lparr>language := v\<rparr>
      else if tag_name = ''identifier'' then md\<lparr>identifier := v\<rparr>
      else if tag_name = ''publisher'' then md\<lparr>publisher := v\<rparr>
      else if tag_name = ''date'' then md\<lparr>date := v\<rparr>
      else if tag_name = ''rights'' then md\<lparr>rights := v\<rparr>
      else md)"

definition metadata_item :: "EpubMetadata \<Rightarrow> string \<Rightarrow> element \<Rightarrow> EpubMetadata" where
  "metadata_item md tag_name item =
     (let md1 = set_field md tag_name (el_text item)
      in case el_text item of
           None \<Rightarrow> md1
         | Some t \<Rightarrow>
             if t = [] then md1
             else md1\<lparr>all_metadata :=
                    AList.update tag_name
                      ((case map_of (all_metadata md1) tag_name of None \<Rightarrow> [] | Some vs \<Rightarrow> vs) @ [t])
                      (all_metadata md1)\<rparr>)"

definition metadata_step :: "EpubMetadata \<Rightarrow> element \<Rightarrow> error + EpubMetadata" where
  "metadata_step md item =
     (case QName_localname item of
        Inl e \<Rightarrow> Inl e
      | Inr tag_name \<Rightarrow> Inr (metadata_item md tag_name item))"

fun metadata_loop :: "EpubMetadata \<Rightarrow> element list \<Rightarrow> error + EpubMetadata" where
  "metadata_loop md [] = Inr md"
| "metadata_loop md (item # items) =
     (case metadata_step md item of
        Inl e \<Rightarrow> Inl e
      | Inr md1 \<Rightarrow> metadata_loop md1 items)"

definition parse_metadata :: "element \<Rightarrow> error + EpubMetadata" where
  "parse_metadata metadata_element =
     metadata_loop new_EpubMetadata (children_of metadata_element)"

definition parse_manifest :: "element \<Rightarrow> (string option \<times> ManifestItem) list" where
  "parse_manifest manifest_element =
     foldl (\<lambda>mf item.
              AList.update (map_of (attrib item) ''id'')
                \<lparr>id' = map_of (attrib item) ''id'', href = map_of (attrib item) ''href'',
                 media_type = map_of (attrib item) ''media-type'',
                 properties = map_of (attrib item) ''properties''\<rparr> mf)
       [] (findall manifest_element opf_ns ''item'')"

definition parse_spine :: "element \<Rightarrow> SpineItem list" where
  "parse_spine spine_element =
     map (\<lambda>itemref.
            \<lparr>idref = map_of (attrib itemref) ''idref'',
             linear = ((case map_of (attrib itemref) ''linear'' of None \<Rightarrow> ''yes'' | Some v \<Rightarrow> v)
                        = ''yes'')\<rparr>)
       (findall spine_element opf_ns ''itemref'')"

definition parse_opf :: "libs \<Rightarrow> ZipFile \<Rightarrow> string \<Rightarrow> string \<Rightarrow> string \<Rightarrow> error + EpubBook" where
  "parse_opf L epub opf_path the_opf_dir the_file_path =
     (case zip_read epub opf_path of
        Inl e \<Rightarrow> Inl e
      | Inr opf_content \<Rightarrow>
          (case fromstring L opf_content of
             None \<Rightarrow> Inl (InvalidEpubFileError OpfMalformed)
           | Some tree \<Rightarrow>
               (case (find_child tree opf_ns ''metadata'', find_child tree opf_ns ''manifest'',
                      find_child tree opf_ns ''spine'') of
                  (Some metadata_element, Some manifest_element, Some spine_element) \<Rightarrow>
                    (case parse_metadata metadata_element of
                       Inl e \<Rightarrow> Inl e
                     | Inr md \<Rightarrow>
                         Inr (new_EpubBook the_file_path the_opf_dir md
                                (parse_manifest manifest_element) (parse_spine spine_element)))
                | _ \<Rightarrow> Inl (InvalidEpubFileError OpfElementsMissing))))"

text \<open>\<open>EpubLoader(file_path).load()\<close>; the path is a \<open>Path\<close> and prints as \<open>Path_str\<close>.\<close>

definition load :: "libs \<Rightarrow> filesystem \<Rightarrow> string \<Rightarrow> error + EpubBook" where
  "load L fs path =
     (case fs (Path_str path) of
        None \<Rightarrow> Inl (FileNotFoundError (Path_str path))
      | Some (Raw data) \<Rightarrow> Inl (InvalidEpubFileError NotAZipFile)
      | Some (Zip epub) \<Rightarrow>
          (case validate_epub epub of
             Some e \<Rightarrow> Inl e
           | None \<Rightarrow>
               (case get_opf_path L epub of
                  Inl e \<Rightarrow> Inl e
                | Inr opf_path \<Rightarrow>
                    parse_opf L epub opf_path (path_parent opf_path) (Path_str path))))"

section \<open>A small instance of the libraries\<close>

text \<open>
  Concrete inputs need concrete libraries.  The instance below covers the part of each
  library that the examples use: patterns that are a literal text (as \<open>re.escape\<close> prints
  it), with \<open>\b\<close> in front or behind, matched over ASCII; replacement templates without
  a backslash; documents made of \<open><name>\<close>, \<open></name>\<close> and text, printed by \<open>prettify\<close>
  with one tag or text per line, indented by depth.
\<close>

datatype lit_token = Boundary | Lit char

definition re_meta :: string where
  "re_meta = ''.^$*+?{}[]|()''"

fun lit_tokens :: "string \<Rightarrow> lit_token list option" where
  "lit_tokens [] = Some []"
| "lit_tokens [c] = (if c = CHR 0x5C \<or> c \<in> set re_meta then None else Some [Lit c])"
| "lit_tokens (c # d # rest) =
     (if c = CHR 0x5C then
        (if d = CHR ''b'' then map_option ((#) Boundary) (lit_tokens rest)
         else if d \<in> set re_special then map_option ((#) (Lit d)) (lit_tokens rest)
         else None)
      else if c \<in> set re_meta then None
      else map_option ((#) (Lit c)) (lit_tokens (d # rest)))"

fun lit_chars :: "lit_token list \<Rightarrow> string option" where
  "lit_chars [] = Some []"
| "lit_chars (Lit c # ts) = map_option ((#) c) (lit_chars ts)"
| "lit_chars (Boundary # ts) = None"

text \<open>A parsed pattern: boundary in front, the literal, boundary behind, ignore case.\<close>

type_synonym lit_pattern = "bool \<times> string \<times> bool \<times> bool"

definition lit_parse :: "string \<Rightarrow> bool \<Rightarrow> lit_pattern option" where
  "lit_parse q icase =
     (case lit_tokens q of
        None \<Rightarrow> None
      | Some ts \<Rightarrow>
          (let pre = (ts \<noteq> [] \<and> hd ts = Boundary);
               ts1 = (if pre then tl ts else ts);
               post = (ts1 \<noteq> [] \<and> last ts1 = Boundary);
               ts2 = (if post then butlast ts1 else ts1)
           in map_option (\<lambda>body. (pre, body, post, icase)) (lit_chars ts2)))"

definition is_word_char :: "char \<Rightarrow> bool" where
  "is_word_char c =
     (let n = (of_char c :: nat)
      in (48 \<le> n \<and> n \<le> 57) \<or> (65 \<le> n \<and> n \<le> 90) \<or> (97 \<le> n \<and> n \<le> 122) \<or> n = 95)"

definition lower :: "char \<Rightarrow> char" where
  "lower c = (let n = (of_char c :: nat) in if 65 \<le> n \<and> n \<le> 90 then char_of (n + 32) else c)"

definition at_boundary :: "char option \<Rightarrow> char option \<Rightarrow> bool" where
  "at_boundary a b =
     ((case a of None \<Rightarrow> False | Some c \<Rightarrow> is_word_char c)
      \<noteq> (case b of None \<Rightarrow> False | Some c \<Rightarrow> is_word_char c))"

definition first_char :: "string \<Rightarrow> char option" where
  "first_char s = (case s of [] \<Rightarrow> None | c # cs \<Rightarrow> Some c)"

definition lit_match_here :: "lit_pattern \<Rightarrow> char option \<Rightarrow> string \<Rightarrow> bool" where
  "lit_match_here P prev rest =
     (case P of (pre, body, post, icase) \<Rightarrow>
        length body \<le> length rest
        \<and> (if icase then map lower (take (length body) rest) = map lower body
            else take (length body) rest = body)
        \<and> (if pre then at_boundary prev (first_char rest) else True)
        \<and> (if post
            then at_boundary (if body = [] then prev else Some (last (take (length body) rest)))
                   (first_char (drop (length body) rest))
            else True))"

fun lit_scan :: "lit_pattern \<Rightarrow> char option \<Rightarrow> nat \<Rightarrow> nat \<Rightarrow> string \<Rightarrow> re_match list" where
  "lit_scan P prev i skip [] =
     (if skip = 0 \<and> lit_match_here P prev []
      then [\<lparr>m_start = i, m_end = i, group0 = []\<rparr>] else [])"
| "lit_scan P prev i skip (c # cs) =
     (let n = length (fst (snd P))
      in if skip > 0 then lit_scan P (Some c) (Suc i) (skip - 1) cs
         else if lit_match_here P prev (c # cs)
         then \<lparr>m_start = i, m_end = i + n, group0 = take n (c # cs)\<rparr>
                # lit_scan P (Some c) (Suc i) (n - 1) cs
         else lit_scan P (Some c) (Suc i) 0 cs)"

definition lit_finditer :: "lit_pattern \<Rightarrow> string \<Rightarrow> re_match list" where
  "lit_finditer P text = lit_scan P None 0 0 text"

definition lit_subn :: "lit_pattern \<Rightarrow> string \<Rightarrow> string \<Rightarrow> error + (string \<times> nat)" where
  "lit_subn P repl text =
     (if CHR 0x5C \<in> set repl then Inl ReError
      else
        (let ms = lit_finditer P text
         in Inr (foldr (\<lambda>m acc. take (m_start m) acc @ repl @ drop (m_end m) acc) ms text,
                 length ms)))"

definition lit_compile :: "string \<Rightarrow> bool \<Rightarrow> pattern option" where
  "lit_compile q icase =
     map_option (\<lambda>P. \<lparr>finditer = lit_finditer P, subn = lit_subn P\<rparr>) (lit_parse q icase)"

datatype tag_token = TText string | TOpen string | TClose string

definition mk_tag :: "string \<Rightarrow> tag_token" where
  "mk_tag s = (if startswith s ''/'' then TClose (tl s) else TOpen s)"

fun tokenize :: "string \<Rightarrow> bool \<Rightarrow> string \<Rightarrow> tag_token list" where
  "tokenize acc in_tag [] = (if acc = [] then [] else [TText (rev acc)])"
| "tokenize acc in_tag (c # cs) =
     (if in_tag then
        (if c = CHR ''>'' then mk_tag (rev acc) # tokenize [] False cs
         else tokenize (c # acc) True cs)
      else
        (if c = CHR ''<'' then (if acc = [] then [] else [TText (rev acc)]) @ tokenize [] True cs
         else tokenize (c # acc) False cs))"

text \<open>The open elements (innermost first, each with its earlier siblings reversed), the
  children read so far at the current level (reversed), the tokens to go.\<close>

fun build_tree :: "(string \<times> node list) list \<Rightarrow> node list \<Rightarrow> tag_token list \<Rightarrow> soup" where
  "build_tree [] cur [] = rev cur"
| "build_tree ((name, sib) # st) cur [] = build_tree st (Tag name (rev cur) # sib) []"
| "build_tree st cur (TText s # ts) = build_tree st (NavigableString s # cur) ts"
| "build_tree st cur (TOpen name # ts) = build_tree ((name, cur) # st) [] ts"
| "build_tree [] cur (TClose name # ts) = build_tree [] cur ts"
| "build_tree ((name', sib) # st) cur (TClose name # ts) =
     build_tree st (Tag name' (rev cur) # sib) ts"

definition tag_parse :: "bytes \<Rightarrow> soup" where
  "tag_parse content = build_tree [] [] (tokenize [] False content)"

fun pretty :: "nat \<Rightarrow> node \<Rightarrow> string" where
  "pretty depth (NavigableString s) =
     (if strip s = [] then [] else replicate depth CHR '' '' @ strip s @ [CHR 0x0A])"
| "pretty depth (Tag name cs) =
     replicate depth CHR '' '' @ ''<'' @ name @ ''>'' @ [CHR 0x0A]
     @ concat (map (pretty (Suc depth)) cs)
     @ replicate depth CHR '' '' @ ''</'' @ name @ ''>'' @ [CHR 0x0A]"

definition tag_prettify :: "soup \<Rightarrow> bytes" where
  "tag_prettify sp = concat (map (pretty 0) sp)"

definition small_libs :: libs where
  "small_libs =
     \<lparr>BeautifulSoup = tag_parse, prettify = tag_prettify, re_compile = lit_compile,
      fromstring = (\<lambda>content. None)\<rparr>"

section \<open>Example books\<close>

definition member :: "string \<Rightarrow> nat \<Rightarrow> bytes \<Rightarrow> ZipInfo \<times> payload" where
  "member name ct data = (\<lparr>filename = name, compress_type = ct\<rparr>, Data data)"

definition xhtml_item :: "string \<Rightarrow> string \<Rightarrow> string option \<times> ManifestItem" where
  "xhtml_item i h =
     (Some i, \<lparr>id' = Some i, href = Some h, media_type = Some ''application/xhtml+xml'',
               properties = None\<rparr>)"

definition mimetype_member :: "ZipInfo \<times> payload" where
  "mimetype_member = member ''mimetype'' ZIP_STORED ''application/epub+zip''"

definition container_member :: "ZipInfo \<times> payload" where
  "container_member = member ''META-INF/container.xml'' ZIP_DEFLATED ''<container/>''"

definition opf_member :: "ZipInfo \<times> payload" where
  "opf_member = member ''OEBPS/content.opf'' ZIP_DEFLATED ''<package/>''"

text \<open>A book with two chapters beside its package document.\<close>

definition chapters_archive :: ZipFile where
  "chapters_archive =
     [mimetype_member, container_member, opf_member,
      member ''OEBPS/ch1.xhtml'' ZIP_DEFLATED ''<html>one</html>'',
      member ''OEBPS/ch2.xhtml'' ZIP_DEFLATED ''<html>two</html>'']"

definition chapters_fs :: filesystem where
  "chapters_fs = [''book.epub'' \<mapsto> Zip chapters_archive]"

definition chapters_book :: EpubBook where
  "chapters_book =
     new_EpubBook ''book.epub'' ''OEBPS'' new_EpubMetadata
       [xhtml_item ''ch1'' ''ch1.xhtml'', xhtml_item ''ch2'' ''ch2.xhtml''] []"

text \<open>The first chapter is read, the second is edited.\<close>

definition chapters_read :: EpubBook where
  "chapters_read = snd (get_content chapters_fs chapters_book ''ch1.xhtml'')"

definition chapters_edited :: EpubBook where
  "chapters_edited = update_content chapters_read ''ch2.xhtml'' ''<html>TWO</html>''"

text \<open>A book whose documents \<open>notes.xhtml\<close> and \<open>footnotes.xhtml\<close> end alike.\<close>

definition notes_archive :: ZipFile where
  "notes_archive =
     [mimetype_member, container_member, opf_member,
      member ''OEBPS/notes.xhtml'' ZIP_DEFLATED ''<html>notes</html>'',
      member ''OEBPS/footnotes.xhtml'' ZIP_DEFLATED ''<html>footnotes</html>'']"

definition notes_fs :: filesystem where
  "notes_fs = [''book.epub'' \<mapsto> Zip notes_archive]"

definition notes_book :: EpubBook where
  "notes_book =
     new_EpubBook ''book.epub'' ''OEBPS'' new_EpubMetadata
       [xhtml_item ''notes'' ''notes.xhtml'', xhtml_item ''footnotes'' ''footnotes.xhtml''] []"

definition notes_edited :: EpubBook where
  "notes_edited = update_content notes_book ''notes.xhtml'' ''<html>NOTES</html>''"

text \<open>A book whose package document lies in \<open>OEBPS\<close> and names a document one level up.\<close>

definition upward_archive :: ZipFile where
  "upward_archive =
     [mimetype_member, container_member, opf_member,
      member ''text.xhtml'' ZIP_DEFLATED ''<html>text</html>'']"

definition upward_fs :: filesystem where
  "upward_fs = [''book.epub'' \<mapsto> Zip upward_archive]"

definition upward_book :: EpubBook where
  "upward_book =
     new_EpubBook ''book.epub'' ''OEBPS'' new_EpubMetadata [xhtml_item ''text'' ''../text.xhtml''] []"

text \<open>A book with a styled page, and the page of \<open>test_replace_engine.py\<close>.\<close>

definition styled_page :: bytes where
  "styled_page =
     ''<html><head><style>p {color: red}</style></head><body><p>A red rose</p></body></html>''"

definition styled_fs :: filesystem where
  "styled_fs =
     [''book.epub'' \<mapsto>
        Zip [mimetype_member, container_member,
             member ''content/styled.xhtml'' ZIP_DEFLATED styled_page]]"

definition styled_book :: EpubBook where
  "styled_book =
     new_EpubBook ''book.epub'' ''.'' new_EpubMetadata
       [xhtml_item ''styled'' ''content/styled.xhtml''] []"

definition test_page :: bytes where
  "test_page = ''<html><body><p>This is a test to test replacement.</p></body></html>''"

definition test_fs :: filesystem where
  "test_fs =
     [''book.epub'' \<mapsto>
        Zip [mimetype_member, container_member,
             member ''content/page1.xhtml'' ZIP_DEFLATED test_page]]"

definition test_book :: EpubBook where
  "test_book =
     new_EpubBook ''book.epub'' ''.'' new_EpubMetadata
       [xhtml_item ''item1'' ''content/page1.xhtml''] []"

text \<open>The invalid containers of \<open>test_epub_loader.py\<close>, and one with a wrong media type.\<close>

definition invalid_fs :: filesystem where
  "invalid_fs =
     [''no_mimetype.epub'' \<mapsto> Zip [container_member],
      ''mimetype_not_first.epub'' \<mapsto> Zip [container_member, mimetype_member],
      ''mimetype_compressed.epub'' \<mapsto>
         Zip [member ''mimetype'' ZIP_DEFLATED ''application/epub+zip'', container_member],
      ''wrong_mimetype.epub'' \<mapsto>
         Zip [member ''mimetype'' ZIP_STORED ''application/zip'', container_member],
      ''no_container.epub'' \<mapsto> Zip [mimetype_member]]"

text \<open>A container whose \<open>mimetype\<close> member is compressed with method 9 (Deflate64), which
  \<open>zipfile\<close> cannot read.\<close>

definition deflate64_fs :: filesystem where
  "deflate64_fs =
     [''deflate64.epub'' \<mapsto> Zip [member ''mimetype'' 9 ''application/epub+zip'', container_member]]"

section \<open>The claims' own terms\<close>

text \<open>
  What the library promises of a match object: its span lies within the text and
  \<open>group(0)\<close> is the text of the span.  A regular expression library is sound when every
  pattern it compiles yields such matches only.
\<close>

definition match_ok :: "string \<Rightarrow> re_match \<Rightarrow> bool" where
  "match_ok text m \<longleftrightarrow>
     m_start m \<le> m_end m \<and> m_end m \<le> length text
     \<and> group0 m = take (m_end m - m_start m) (drop (m_start m) text)"

definition re_sound :: "libs \<Rightarrow> bool" where
  "re_sound L \<longleftrightarrow>
     (\<forall>q icase p text. re_compile L q icase = Some p \<longrightarrow> list_all (match_ok text) (finditer p text))"

text \<open>The coordinates of a search result lie within its context and cut the matched text
  out of it.\<close>

definition coordinates_ok :: "SearchResult \<Rightarrow> bool" where
  "coordinates_ok r \<longleftrightarrow>
     0 \<le> match_start r \<and> match_start r \<le> match_end r
     \<and> match_end r \<le> int (length (context r))
     \<and> py_slice (context r) (match_start r) (match_end r) = match_text r"



text \<open>The first result of searching the page of the tests for \<open>test\<close>.\<close>

definition first_test_result :: SearchResult where
  "first_test_result =
     \<lparr>file_path = ''content/page1.xhtml'', item_href = ''content/page1.xhtml'',
      node_index = 0, match_start = 10, match_end = 14, match_text = ''test'',
      context = ''This is a test to test replacement.''\<rparr>"



text \<open>
  Batch replace as the specification words it: replace-all once per rule, in the order
  given, each on the book the rule before left behind; the counts are collected, and an
  exception ends the run.
\<close>

fun replace_each ::
  "libs \<Rightarrow> filesystem \<Rightarrow> EpubBook \<Rightarrow> bool \<Rightarrow> bool \<Rightarrow> bool \<Rightarrow> (string \<times> string) list
     \<Rightarrow> nat list \<times> error option \<times> EpubBook" where
  "replace_each L fs book cs ww rx [] = ([], None, book)"
| "replace_each L fs book cs ww rx ((find0, replace) # rules) =
     (case replace_all L fs book find0 replace cs ww rx of
        (Inl e, book1) \<Rightarrow> ([], Some e, book1)
      | (Inr n, book1) \<Rightarrow>
          (case replace_each L fs book1 cs ww rx rules of
             (ns, err, book2) \<Rightarrow> (n # ns, err, book2)))"




section \<open>Evaluation of the example books\<close>

lemmas example_defs =
  member_def mimetype_member_def container_member_def opf_member_def xhtml_item_def
  new_EpubBook_def ZIP_STORED_def ZIP_DEFLATED_def ZIP_BZIP2_def ZIP_LZMA_def

lemmas path_defs =
  full_path_def path_div_def posix_join_def startswith_def endswith_def path_root_def
  path_parts_def as_posix_def Path_str_def add_suffix_def

lemmas content_defs =
  get_content_def update_content_def cache_store_def cm_zipfile_def open_zip_def zip_read_def
  read_member_def supported_def name_to_info_def

lemmas saver_defs =
  save_def write_temp_archive_def write_members_def write_mimetype_def
  write_unmodified_files_def write_modified_files_def writestr_def infolist_def
  modified_files_of_def commit_def os_replace_def fresh_ZipInfo_def read_member_def
  supported_def Let_def

lemma chapters_edited_eval:
  "chapters_edited =
     \<lparr>filepath = ''book.epub'', opf_dir = ''OEBPS'', metadata = new_EpubMetadata,
      manifest = [xhtml_item ''ch1'' ''ch1.xhtml'', xhtml_item ''ch2'' ''ch2.xhtml''],
      spine = [], toc = [], is_modified = True,
      content_manager =
        \<lparr>content_cache =
           [(''ch1.xhtml'', ''<html>one</html>''), (''ch2.xhtml'', ''<html>TWO</html>'')],
         zipfile_handle = Some chapters_archive\<rparr>\<rparr>"
  by (simp add: chapters_edited_def chapters_read_def chapters_book_def chapters_fs_def
      chapters_archive_def content_defs path_defs member_def mimetype_member_def
      container_member_def opf_member_def new_EpubBook_def)

section \<open>Save: a failure while the temporary archive is written\<close>






section \<open>Save: which members are written from the cache\<close>

text \<open>Whatever \<open>get_content\<close> returns is a key of the cache afterwards.\<close>

lemma read_href_is_cache_key:
  assumes "get_content fs book h = (Inr c, book1)"
  shows "h \<in> set (modified_files_of book1)"
proof (cases "map_of (content_cache (content_manager book)) h")
  case None
  with assms have "map_of (content_cache (content_manager book1)) h = Some c"
    by (auto simp: get_content_def cm_zipfile_def cache_store_def update_conv'
        split: option.splits sum.splits prod.splits error.splits)
  then show ?thesis
    by (auto simp: modified_files_of_def dest: map_of_SomeD intro: rev_image_eqI)
next
  case (Some c')
  with assms have "book1 = book" by (simp add: get_content_def)
  with Some show ?thesis
    by (auto simp: modified_files_of_def dest: map_of_SomeD intro: rev_image_eqI)
qed

text \<open>
  Claim C1.  The claim says that \<open>save\<close> writes from the cache exactly the hrefs that were
  passed to \<open>update_content\<close>, and copies an href that was only read from the original
  archive.  The code takes the keys of the cache as the modified files, and \<open>get_content\<close>
  puts what it reads into the same cache.  In the book below \<open>ch1.xhtml\<close> was read and
  \<open>ch2.xhtml\<close> was edited: both are keys of the cache, the pass over the unmodified
  members copies neither chapter, and the pass over the modified files writes both from
  the cache.
\<close>

theorem read_only_href_written_from_cache:
  "modified_files_of chapters_edited = [''ch1.xhtml'', ''ch2.xhtml'']
   \<and> write_unmodified_files Reliable [] chapters_archive (modified_files_of chapters_edited)
       = (None, [container_member, opf_member], Reliable)
   \<and> write_modified_files Reliable [] chapters_archive chapters_edited
       = (None, [member ''OEBPS/ch1.xhtml'' ZIP_DEFLATED ''<html>one</html>'',
                 member ''OEBPS/ch2.xhtml'' ZIP_DEFLATED ''<html>TWO</html>''], Reliable)"
  by (simp add: chapters_edited_eval saver_defs chapters_archive_def example_defs endswith_def
      zip_read_def name_to_info_def)

section \<open>Save: members that share a suffix\<close>

lemma notes_edited_eval:
  "notes_edited =
     \<lparr>filepath = ''book.epub'', opf_dir = ''OEBPS'', metadata = new_EpubMetadata,
      manifest =
        [xhtml_item ''notes'' ''notes.xhtml'', xhtml_item ''footnotes'' ''footnotes.xhtml''],
      spine = [], toc = [], is_modified = True,
      content_manager =
        \<lparr>content_cache = [(''notes.xhtml'', ''<html>NOTES</html>'')],
         zipfile_handle = None\<rparr>\<rparr>"
  by (simp add: notes_edited_def notes_book_def update_content_def cache_store_def
      new_EpubBook_def)

text \<open>The pass over the unmodified members copies no member whose name ends with a key of
  the cache, whichever item that key belongs to.\<close>

lemma writestr_written:
  "writestr dev new_zip zinfo data = (None, nz, d) \<Longrightarrow> nz = new_zip @ [(zinfo, Data data)]"
  by (auto simp: writestr_def split: if_splits option.splits)

lemma writestr_failed:
  "writestr dev new_zip zinfo data = (Some e, nz, d) \<Longrightarrow> nz = new_zip"
  by (auto simp: writestr_def split: if_splits option.splits)

lemma write_unmodified_loop_skips:
  assumes "write_unmodified_loop dev new_zip original_zip modified_files items
             = (err, new_zip', dev')"
    and "m \<in> set new_zip'" and "m \<notin> set new_zip"
  shows "\<not> list_ex (\<lambda>href. endswith (filename (fst m)) href) modified_files"
  using assms
proof (induction items arbitrary: dev new_zip)
  case Nil
  then show ?case by simp
next
  case (Cons item items)
  show ?case
  proof (cases "filename item = ''mimetype''
                \<or> list_ex (\<lambda>href. endswith (filename item) href) modified_files")
    case True
    with Cons.prems Cons.IH [of dev new_zip] show ?thesis
      by (auto split: if_splits)
  next
    case False
    show ?thesis
    proof (cases "zip_read original_zip (filename item)")
      case (Inl e)
      with Cons.prems False show ?thesis by simp
    next
      case (Inr data)
      obtain r nz d where w: "writestr dev new_zip item data = (r, nz, d)"
        by (cases "writestr dev new_zip item data") auto
      show ?thesis
      proof (cases r)
        case (Some e)
        with w have "nz = new_zip" by (rule_tac writestr_failed [of dev new_zip item data]) simp
        with Cons.prems False Inr w Some show ?thesis by simp
      next
        case None
        with w have nz: "nz = new_zip @ [(item, Data data)]"
          by (rule_tac writestr_written [of dev new_zip item data]) simp
        from Cons.prems False Inr w None
        have loop: "write_unmodified_loop d nz original_zip modified_files items
                      = (err, new_zip', dev')"
          by simp
        show ?thesis
        proof (cases "m = (item, Data data)")
          case True
          with False show ?thesis by simp
        next
          case other: False
          with Cons.prems(3) nz have "m \<notin> set nz" by simp
          from Cons.IH [OF loop Cons.prems(2) this] show ?thesis .
        qed
      qed
    qed
  qed
qed

text \<open>
  Claim C2.  The claim says that after one item was edited, every other member of the
  original archive is in the saved archive with the bytes it had.  In the book below only
  \<open>notes.xhtml\<close> was passed to \<open>update_content\<close>.  The name \<open>OEBPS/footnotes.xhtml\<close> ends
  with \<open>notes.xhtml\<close> too, so the pass over the unmodified members skips it, and the pass
  over the modified files writes the first member that ends so, \<open>OEBPS/notes.xhtml\<close>, only:
  the saved archive has no member \<open>OEBPS/footnotes.xhtml\<close>, which the original had.
\<close>

theorem save_drops_member_with_same_suffix:
  "save Reliable notes_fs notes_edited True =
     (None,
      [''book.epub'' \<mapsto>
         Zip [mimetype_member, container_member, opf_member,
              member ''OEBPS/notes.xhtml'' ZIP_DEFLATED ''<html>NOTES</html>''],
       ''book.epub.bak'' \<mapsto> Zip notes_archive],
      notes_edited\<lparr>is_modified := False,
        content_manager := \<lparr>content_cache = [], zipfile_handle = None\<rparr>\<rparr>)
   \<and> zip_read notes_archive ''OEBPS/footnotes.xhtml'' = Inr ''<html>footnotes</html>''"
  apply (simp add: notes_edited_eval)
  apply (simp add: saver_defs notes_fs_def notes_archive_def example_defs endswith_def
      zip_read_def name_to_info_def path_defs open_zip_def Let_def fun_eq_iff)
  done

section \<open>Content cache: resolving an href\<close>

text \<open>
  Claim C6.  The claim says that \<open>get_content\<close> removes \<open>.\<close> and \<open>..\<close> segments from the
  joined path.  \<open>Path(opf_dir) / href\<close> drops \<open>.\<close> segments and keeps \<open>..\<close> segments (the
  call of \<open>normpath\<close> is commented out in the source, under a comment that announces the
  normalization).  For the href \<open>../text.xhtml\<close> of a package document in \<open>OEBPS\<close> the
  archive is asked for \<open>OEBPS/../text.xhtml\<close>, which no member is called, and
  \<open>get_content\<close> raises \<open>FileNotFoundError\<close> although the archive has the member
  \<open>text.xhtml\<close>.
\<close>

theorem parent_segment_not_resolved:
  "get_content upward_fs upward_book ''../text.xhtml''
     = (Inl (FileNotFoundError ''OEBPS/../text.xhtml''),
        upward_book\<lparr>content_manager :=
          \<lparr>content_cache = [], zipfile_handle = Some upward_archive\<rparr>\<rparr>)
   \<and> zip_read upward_archive ''text.xhtml'' = Inr ''<html>text</html>''"
  by (simp add: upward_book_def upward_fs_def upward_archive_def content_defs path_defs
      example_defs)

section \<open>Loader: the structure of the container\<close>

lemma name_to_info_None: "name_to_info z name = None \<longleftrightarrow> name \<notin> filename ` fst ` set z"
  by (force simp: name_to_info_def find_None_iff)

lemma validate_epub_rejects:
  assumes "''mimetype'' \<notin> filename ` fst ` set epub
           \<or> (\<exists>raw. zip_read epub ''mimetype'' = Inr raw)"
    and "''mimetype'' \<notin> filename ` fst ` set epub
           \<or> (epub \<noteq> [] \<and> filename (fst (hd epub)) \<noteq> ''mimetype'')
           \<or> (epub \<noteq> [] \<and> compress_type (fst (hd epub)) \<noteq> ZIP_STORED)
           \<or> (\<exists>raw. zip_read epub ''mimetype'' = Inr raw
                 \<and> strip raw \<noteq> ''application/epub+zip'')
           \<or> ''META-INF/container.xml'' \<notin> filename ` fst ` set epub"
  shows "\<exists>r. validate_epub epub = Some (InvalidEpubFileError r)"
proof (cases "name_to_info epub ''mimetype''")
  case None
  then show ?thesis by (simp add: validate_epub_def zip_read_def)
next
  case (Some m)
  then have present: "''mimetype'' \<in> filename ` fst ` set epub"
    using name_to_info_None [of epub "''mimetype''"] by simp
  with assms(1) obtain raw where rd: "zip_read epub ''mimetype'' = Inr raw"
    by blast
  show ?thesis
  proof (cases "name_to_info epub ''META-INF/container.xml''")
    case None
    then show ?thesis
      by (simp add: validate_epub_def rd getinfo_def Let_def)
  next
    case (Some c)
    then have "''META-INF/container.xml'' \<in> filename ` fst ` set epub"
      using name_to_info_None [of epub "''META-INF/container.xml''"] by simp
    with assms(2) present rd show ?thesis
      by (auto simp: validate_epub_def getinfo_def Let_def infolist_def hd_map Some)
  qed
qed

text \<open>
  Claim C7, as stated: \<open>load\<close> raises \<open>InvalidEpubFileError\<close> whenever the \<open>mimetype\<close> member
  is compressed.  \<open>_validate_epub\<close> reads the member before it looks at the compression
  method, and catches \<open>KeyError\<close> and \<open>UnicodeDecodeError\<close> only.  The \<open>mimetype\<close> member
  of the container below is compressed with method 9, which \<open>zipfile\<close> does not read: the
  read raises \<open>NotImplementedError\<close>, and so does \<open>load\<close>.
\<close>

theorem load_lets_read_error_through:
  "compress_type (fst (hd [member ''mimetype'' 9 ''application/epub+zip'', container_member]))
     \<noteq> ZIP_STORED
   \<and> load small_libs deflate64_fs ''deflate64.epub'' = Inl NotImplementedError"
  by (simp add: load_def deflate64_fs_def path_defs validate_epub_def zip_read_def
      read_member_def supported_def name_to_info_def example_defs)

text \<open>
  Claim C7, amended.  On a file that is a ZIP archive whose \<open>mimetype\<close> member, if there
  is one, can be read, \<open>load\<close> raises \<open>InvalidEpubFileError\<close> in each of the five cases: no
  member is called \<open>mimetype\<close>; the first member is not called \<open>mimetype\<close>; the first
  member is compressed; the \<open>mimetype\<close> member, stripped of whitespace, is not
  \<open>application/epub+zip\<close>; no member is called \<open>META-INF/container.xml\<close>.
\<close>

theorem load_rejects_invalid_container:
  assumes "fs (Path_str path) = Some (Zip epub)"
    and "''mimetype'' \<notin> filename ` fst ` set epub
         \<or> (\<exists>raw. zip_read epub ''mimetype'' = Inr raw)"
    and "''mimetype'' \<notin> filename ` fst ` set epub
         \<or> (epub \<noteq> [] \<and> filename (fst (hd epub)) \<noteq> ''mimetype'')
         \<or> (epub \<noteq> [] \<and> compress_type (fst (hd epub)) \<noteq> ZIP_STORED)
         \<or> (\<exists>raw. zip_read epub ''mimetype'' = Inr raw
               \<and> strip raw \<noteq> ''application/epub+zip'')
         \<or> ''META-INF/container.xml'' \<notin> filename ` fst ` set epub"
  shows "\<exists>r. load L fs path = Inl (InvalidEpubFileError r)"
proof -
  obtain r where "validate_epub epub = Some (InvalidEpubFileError r)"
    using validate_epub_rejects [OF assms(2) assms(3)] by blast
  then show ?thesis
    using assms(1) by (simp add: load_def)
qed

text \<open>The archive whose \<open>mimetype\<close> member is deflated, which can be read, is rejected.\<close>

theorem load_rejects_invalid_container_witness:
  "invalid_fs (Path_str ''mimetype_compressed.epub'')
     = Some (Zip [member ''mimetype'' ZIP_DEFLATED ''application/epub+zip'', container_member])
   \<and> zip_read [member ''mimetype'' ZIP_DEFLATED ''application/epub+zip'', container_member]
         ''mimetype'' = Inr ''application/epub+zip''
   \<and> compress_type
         (fst (hd [member ''mimetype'' ZIP_DEFLATED ''application/epub+zip'', container_member]))
       \<noteq> ZIP_STORED
   \<and> (\<exists>r. load small_libs invalid_fs ''mimetype_compressed.epub''
             = Inl (InvalidEpubFileError r))"
proof -
  let ?z = "[member ''mimetype'' ZIP_DEFLATED ''application/epub+zip'', container_member]"
  have h1: "invalid_fs (Path_str ''mimetype_compressed.epub'') = Some (Zip ?z)"
    by (simp add: invalid_fs_def path_defs)
  have h2: "zip_read ?z ''mimetype'' = Inr ''application/epub+zip''"
    by (simp add: zip_read_def read_member_def supported_def name_to_info_def example_defs)
  have h3: "compress_type (fst (hd ?z)) \<noteq> ZIP_STORED"
    by (simp add: example_defs)
  from load_rejects_invalid_container
         [of invalid_fs "''mimetype_compressed.epub''" ?z small_libs] h1 h2 h3
  show ?thesis
    by simp
qed

text \<open>Each of the five archives of the tests is rejected for the rule it breaks.\<close>

lemma load_test_epubs:
  "load L invalid_fs ''no_mimetype.epub'' = Inl (InvalidEpubFileError MimetypeMissing)"
  "load L invalid_fs ''mimetype_not_first.epub'' = Inl (InvalidEpubFileError MimetypeNotFirst)"
  "load L invalid_fs ''mimetype_compressed.epub''
     = Inl (InvalidEpubFileError MimetypeCompressed)"
  "load L invalid_fs ''wrong_mimetype.epub'' = Inl (InvalidEpubFileError MimetypeContent)"
  "load L invalid_fs ''no_container.epub'' = Inl (InvalidEpubFileError ContainerMissing)"
  by (simp_all add: load_def invalid_fs_def path_defs validate_epub_def zip_read_def
      read_member_def supported_def getinfo_def name_to_info_def example_defs is_ascii_def
      strip_def py_isspace_def infolist_def)

text \<open>A member that cannot be read ends \<open>load\<close> with the exception of the read, whatever
  else is wrong with the container.\<close>

lemma load_unreadable_mimetype:
  assumes "fs (Path_str path) = Some (Zip epub)"
    and "zip_read epub ''mimetype'' = Inl e" and "\<forall>k. e \<noteq> KeyError k"
  shows "load L fs path = Inl e"
  using assms by (cases e) (simp_all add: load_def validate_epub_def)

section \<open>Loader: metadata\<close>

lemma set_field_all_metadata [simp]: "all_metadata (set_field md k v) = all_metadata md"
  by (simp add: set_field_def)















lemma metadata_loop_other:
  "\<not> list_all is_Element items \<Longrightarrow> metadata_loop md items = Inl ValueError"
proof (induction items arbitrary: md)
  case Nil
  then show ?case by simp
next
  case (Cons item items)
  then show ?case
    by (cases item) (simp_all add: metadata_step_def QName_localname_def)
qed



text \<open>A comment before the title: \<open>_parse_metadata\<close> raises \<open>ValueError\<close>.\<close>

lemma parse_metadata_comment:
  "parse_metadata (Element opf_ns ''metadata'' [] None
       [Comment ''generated'',
        Element ''http://purl.org/dc/elements/1.1/'' ''title'' [] (Some ''Book'') []])
     = Inl ValueError"
  by (simp add: parse_metadata_def children_of_def metadata_step_def QName_localname_def)

section \<open>Search: which nodes are matched\<close>

text \<open>
  Claim C3.  The claim says that search leaves out the contents of \<open>style\<close> and \<open>script\<close>
  elements.  \<open>_search_in_file\<close> runs the pattern over every node of
  \<open>find_all(string=True)\<close>; the test of the parent's name stands in \<open>_replace_in_file\<close>
  only.  On the styled page, searching for \<open>red\<close> yields a result at node \<open>0\<close>, the text of
  the \<open>style\<close> element, while replace-all of the same pattern passes over that node and
  counts one substitution.
\<close>

theorem search_reports_match_in_style:
  "fst (search small_libs styled_fs styled_book ''red'' False True False) =
     [\<lparr>file_path = ''content/styled.xhtml'', item_href = ''content/styled.xhtml'',
       node_index = 0, match_start = 10, match_end = 13, match_text = ''red'',
       context = ''p {color: red}''\<rparr>,
      \<lparr>file_path = ''content/styled.xhtml'', item_href = ''content/styled.xhtml'',
       node_index = 1, match_start = 2, match_end = 5, match_text = ''red'',
       context = ''A red rose''\<rparr>]
   \<and> find_all_strings (BeautifulSoup small_libs styled_page)
       = [(''style'', ''p {color: red}''), (''p'', ''A red rose'')]
   \<and> fst (replace_all small_libs styled_fs styled_book ''red'' ''blue'' False True False)
       = Inr 1"
  by code_simp

section \<open>Search: the coordinates of a result\<close>

lemma slice_bound_nat [simp]: "slice_bound n (int k) = min k n"
  by (simp add: slice_bound_def)

lemma result_coordinates:
  assumes "match_ok s m"
  shows "0 \<le> int (m_start m) \<and> int (m_start m) \<le> int (m_end m)
         \<and> int (m_end m) \<le> int (length s)
         \<and> py_slice s (int (m_start m)) (int (m_end m)) = group0 m"
  using assms by (simp add: match_ok_def py_slice_def Let_def min_def)

lemma results_in_node_ok:
  assumes "list_all (match_ok (snd (snd ix))) (finditer p (snd (snd ix)))"
    and "r \<in> set (results_in_node h p ix)"
  shows "coordinates_ok r"
proof -
  from assms(2) obtain m where m: "m \<in> set (finditer p (snd (snd ix)))"
    and r: "r = \<lparr>file_path = h, item_href = h, node_index = int (fst ix),
                match_start = int (m_start m), match_end = int (m_end m),
                match_text = group0 m, context = snd (snd ix)\<rparr>"
    by (auto simp: results_in_node_def)
  from assms(1) m have "match_ok (snd (snd ix)) m"
    by (simp add: list_all_iff)
  then show ?thesis
    using result_coordinates [of "snd (snd ix)" m] by (simp add: r coordinates_ok_def)
qed

lemma search_in_file_ok:
  assumes "\<And>s. list_all (match_ok s) (finditer p s)"
    and "r \<in> set (fst (search_in_file L fs book item p))"
  shows "coordinates_ok r"
  using assms(2) results_in_node_ok [OF assms(1)]
  by (auto simp: search_in_file_def Let_def split: option.splits sum.splits prod.splits)

lemma search_items_ok:
  assumes "\<And>s. list_all (match_ok s) (finditer p s)"
    and "r \<in> set (fst (search_items L fs book p items))"
  shows "coordinates_ok r"
  using assms(2)
proof (induction items arbitrary: book)
  case Nil
  then show ?case by simp
next
  case (Cons item items)
  show ?case
  proof (cases "media_type item")
    case None
    with Cons.prems show ?thesis by simp
  next
    case (Some mt)
    show ?thesis
    proof (cases "str_contains ''html'' mt")
      case False
      with Some Cons show ?thesis by simp
    next
      case True
      obtain rs err book1 where sif: "search_in_file L fs book item p = (rs, err, book1)"
        by (cases "search_in_file L fs book item p") auto
      have rs_ok: "\<And>x. x \<in> set rs \<Longrightarrow> coordinates_ok x"
        using search_in_file_ok [OF assms(1), of _ L fs book item] sif by simp
      show ?thesis
      proof (cases err)
        case (Some e)
        with Cons.prems \<open>media_type item = Some mt\<close> True sif rs_ok show ?thesis by simp
      next
        case None
        obtain rs' err' book2
          where rest: "search_items L fs book1 p items = (rs', err', book2)"
          by (cases "search_items L fs book1 p items") auto
        from Cons.prems \<open>media_type item = Some mt\<close> True sif None rest
        have "r \<in> set rs \<or> r \<in> set rs'" by simp
        then show ?thesis
          using rs_ok Cons.IH [of book1] rest by auto
      qed
    qed
  qed
qed

text \<open>
  Claim C8, as stated: every result has \<open>match_start < match_end \<le> length(context)\<close> and
  \<open>context[match_start:match_end] = match_text\<close>.  The regular expression \<open>\b\<close> matches the
  empty text at the word boundaries of the page of the tests, and \<open>finditer\<close> yields these
  matches as any other: the results have \<open>match_start = match_end\<close>.
\<close>

theorem search_yields_empty_match:
  "\<not> list_all (\<lambda>r. match_start r < match_end r \<and> match_end r \<le> int (length (context r))
                    \<and> py_slice (context r) (match_start r) (match_end r) = match_text r)
       (fst (search small_libs test_fs test_book [CHR 0x5C, CHR ''b''] True False True))"
  by code_simp

text \<open>
  Claim C8, amended.  With a regular expression library whose matches lie within the text
  searched and carry the text of their span, every result of \<open>search\<close> has
  \<open>0 \<le> match_start \<le> match_end \<le> length(context)\<close> and
  \<open>context[match_start:match_end] = match_text\<close>.
\<close>

theorem search_result_coordinates:
  assumes "re_sound L" and "r \<in> set (fst (search L fs book query cs ww rx))"
  shows "0 \<le> match_start r \<and> match_start r \<le> match_end r
         \<and> match_end r \<le> int (length (context r))
         \<and> py_slice (context r) (match_start r) (match_end r) = match_text r"
proof (cases "compile_search_pattern L query cs ww rx")
  case (Inl e)
  with assms(2) show ?thesis by (simp add: search_def)
next
  case (Inr p)
  then obtain q icase where "re_compile L q icase = Some p"
    by (auto simp: compile_search_pattern_def Let_def split: option.splits)
  with assms(1) have sound: "\<And>s. list_all (match_ok s) (finditer p s)"
    by (auto simp: re_sound_def)
  from assms(2) Inr have "r \<in> set (fst (search_items L fs book p (map snd (manifest book))))"
    by (simp add: search_def)
  then have "coordinates_ok r"
    using search_items_ok [OF sound] by blast
  then show ?thesis by (simp add: coordinates_ok_def)
qed

text \<open>The small library is sound: a match of the scan starts at or after the position
  scanned, ends within the text, and carries the text between.\<close>

lemma span_shift:
  assumes "Suc i \<le> s \<and> s \<le> e \<and> e \<le> Suc i + length cs
           \<and> g = take (e - s) (drop (s - Suc i) cs)"
  shows "i \<le> s \<and> s \<le> e \<and> e \<le> i + length (c # cs)
         \<and> g = take (e - s) (drop (s - i) (c # cs))"
proof -
  from assms have "s - i = Suc (s - Suc i)" by arith
  with assms show ?thesis by simp
qed

lemma lit_scan_ok:
  "m \<in> set (lit_scan P prev i skip rest) \<Longrightarrow>
     i \<le> m_start m \<and> m_start m \<le> m_end m \<and> m_end m \<le> i + length rest
     \<and> group0 m = take (m_end m - m_start m) (drop (m_start m - i) rest)"
proof (induction rest arbitrary: prev i skip)
  case Nil
  then show ?case by (auto split: if_splits)
next
  case (Cons c cs)
  let ?n = "length (fst (snd P))"
  show ?case
  proof (cases "skip > 0")
    case True
    with Cons.prems have "m \<in> set (lit_scan P (Some c) (Suc i) (skip - 1) cs)"
      by (simp add: Let_def)
    from Cons.IH [OF this] show ?thesis
      by (rule span_shift)
  next
    case False
    show ?thesis
    proof (cases "lit_match_here P prev (c # cs)")
      case True
      then have len: "?n \<le> length (c # cs)"
        by (auto simp: lit_match_here_def split: prod.splits)
      from Cons.prems False True
      have "m = \<lparr>m_start = i, m_end = i + ?n, group0 = take ?n (c # cs)\<rparr>
            \<or> m \<in> set (lit_scan P (Some c) (Suc i) (?n - 1) cs)"
        by (simp add: Let_def)
      then show ?thesis
      proof
        assume "m = \<lparr>m_start = i, m_end = i + ?n, group0 = take ?n (c # cs)\<rparr>"
        with len show ?thesis by simp
      next
        assume "m \<in> set (lit_scan P (Some c) (Suc i) (?n - 1) cs)"
        from Cons.IH [OF this] show ?thesis
          by (rule span_shift)
      qed
    next
      case nomatch: False
      with Cons.prems False have "m \<in> set (lit_scan P (Some c) (Suc i) 0 cs)"
        by (simp add: Let_def)
      from Cons.IH [OF this] show ?thesis
        by (rule span_shift)
    qed
  qed
qed

lemma lit_finditer_ok: "list_all (match_ok s) (lit_finditer P s)"
  using lit_scan_ok [of _ P None 0 0 s]
  by (auto simp: list_all_iff lit_finditer_def match_ok_def)

lemma small_libs_sound: "re_sound small_libs"
  by (auto simp: re_sound_def small_libs_def lit_compile_def lit_finditer_ok)

lemma first_test_result_found:
  "first_test_result
     \<in> set (fst (search small_libs test_fs test_book ''test'' False True False))"
  by code_simp

theorem search_result_coordinates_witness:
  "re_sound small_libs
   \<and> first_test_result
       \<in> set (fst (search small_libs test_fs test_book ''test'' False True False))
   \<and> 0 \<le> match_start first_test_result
   \<and> match_start first_test_result \<le> match_end first_test_result
   \<and> match_end first_test_result \<le> int (length (context first_test_result))
   \<and> py_slice (context first_test_result) (match_start first_test_result)
         (match_end first_test_result) = match_text first_test_result"
  using search_result_coordinates [OF small_libs_sound first_test_result_found]
    small_libs_sound first_test_result_found
  by simp

section \<open>Replace: a single result\<close>

lemma strings_in_simps [simp]:
  "strings_in parent [] = []"
  "strings_in parent (NavigableString s # rest) = (parent, s) # strings_in parent rest"
  "strings_in parent (Tag name cs # rest) = strings_in name cs @ strings_in parent rest"
  by (simp_all add: strings_in_def)





















text \<open>After replace-all has rewritten the page, the same result is stale: no
  replacement.\<close>

lemma stale_result_is_not_replaced:
  "fst (replace_single small_libs test_fs
          (snd (replace_all small_libs test_fs test_book ''test'' ''sample'' False True False))
          first_test_result ''example'') = Inr 0"
  by code_simp

section \<open>Replace: a batch of rules\<close>

lemma batch_loop_acc:
  "batch_loop L fs book cs ww rx tot ops =
     (case replace_each L fs book cs ww rx ops of
        (ns, None, b) \<Rightarrow> (Inr (tot + sum_list ns), b)
      | (ns, Some e, b) \<Rightarrow> (Inl e, b))"
proof (induction ops arbitrary: book tot)
  case Nil
  then show ?case by simp
next
  case (Cons op ops)
  obtain f r where op: "op = (f, r)" by (cases op)
  show ?case
  proof (cases "replace_all L fs book f r cs ww rx")
    case (Pair res b1)
    then show ?thesis
      using Cons.IH [of b1]
      by (cases res) (auto simp: op split: prod.splits option.splits)
  qed
qed

lemma test_batch_result:
  "fst (batch_replace_all small_libs test_fs test_book
          [(''test'', ''sample''), (''replacement'', ''substitution'')] False True False)
     = Inr 3"
  by code_simp

lemma test_batch_content:
  "map_option (str_contains ''a sample to sample substitution'')
     (map_of (content_cache (content_manager (snd (batch_replace_all small_libs test_fs
          test_book [(''test'', ''sample''), (''replacement'', ''substitution'')]
          False True False))))
        ''content/page1.xhtml'') = Some True"
  by code_simp

lemma test_page_contains: "str_contains ''a test to test replacement'' test_page"
  by code_simp

text \<open>
  Claim C9.  For every list of rules and every setting of the three flags,
  \<open>batch_replace_all\<close> is replace-all once per rule in the order given, each on the book the
  rule before left, and returns the sum of the counts (an exception of a rule ends the batch
  with the book as it then is).  On the page of the tests, which contains
  \<open>a test to test replacement\<close>, the rules \<open>test \<rightarrow> sample\<close>, \<open>replacement \<rightarrow> substitution\<close>
  (ignoring case, whole words) count \<open>3\<close> and leave content that contains
  \<open>a sample to sample substitution\<close>.
\<close>

theorem batch_replace_all_sequential:
  "batch_replace_all L fs book rules cs ww rx =
     (case replace_each L fs book cs ww rx rules of
        (ns, None, b) \<Rightarrow> (Inr (sum_list ns), b)
      | (ns, Some e, b) \<Rightarrow> (Inl e, b))
   \<and> str_contains ''a test to test replacement'' test_page
   \<and> fst (batch_replace_all small_libs test_fs test_book
          [(''test'', ''sample''), (''replacement'', ''substitution'')] False True False)
       = Inr 3
   \<and> map_option (str_contains ''a sample to sample substitution'')
     (map_of (content_cache (content_manager (snd (batch_replace_all small_libs test_fs
          test_book [(''test'', ''sample''), (''replacement'', ''substitution'')]
          False True False))))
        ''content/page1.xhtml'') = Some True"
proof -
  have "batch_replace_all L fs book rules cs ww rx =
     (case replace_each L fs book cs ww rx rules of
        (ns, None, b) \<Rightarrow> (Inr (sum_list ns), b)
      | (ns, Some e, b) \<Rightarrow> (Inl e, b))"
    unfolding batch_replace_all_def batch_loop_acc
    by (simp split: prod.splits option.splits)
  with test_batch_result test_batch_content test_page_contains show ?thesis
    by blast
qed

end
